theory Spec2Isabelle
  imports Complex_Main "HOL-Library.Sublist"
begin

section \<open>Checkpointed capture of solver statistics (\<open>data_generation/run_solver.py\<close>)\<close>

text \<open>
  The development embeds \<open>run_problem\<close> and its helper predicates. Everything outside the
  language is made explicit:
  \<^item> exceptions are values of \<open>pyerror\<close>, results have type \<open>pyerror + 'a\<close>;
  \<^item> Python's \<open>float\<close> is a type parameter \<open>'f\<close>, and the four float primitives the code
    uses (true division of two integers, division of two floats, \<open>>=\<close>, and \<open>float(s)\<close>)
    are the fields of a record \<open>'f float_ops\<close> that every function takes as its first
    argument. Theorems quantify over all such records, so they hold for IEEE arithmetic as
    for any other reading of these primitives;
  \<^item> the file system, the search path and the child process are the fields of a record
    \<open>'f world\<close>; the child's standard output is the list of its lines, each paired with
    the value of \<open>time.time() - start_time\<close> that the loop samples when it handles the line.
    The list is finite: the child closes its output, as a solver that honours its time
    limit does.
\<close>

subsection \<open>Errors, floats and the outside world\<close>

datatype pyerror =
    FileNotFoundError
  | IndexError
  | ValueError
  | ZeroDivisionError
  | OverflowError
  | UnicodeDecodeError

record 'f float_ops =
  int_truediv :: "int \<Rightarrow> int \<Rightarrow> pyerror + 'f"
  float_truediv :: "'f \<Rightarrow> 'f \<Rightarrow> pyerror + 'f"
  float_ge :: "'f \<Rightarrow> 'f \<Rightarrow> bool"
  float_of_str :: "string \<Rightarrow> pyerror + 'f"

text \<open>
  A line of the child's output before decoding: \<open>None\<close> stands for bytes that are not valid
  UTF-8 (\<open>line.decode('utf-8')\<close> raises), \<open>Some s\<close> for the decoded text. The second
  component is the elapsed time in seconds sampled for that line.
\<close>

type_synonym 'f timed_line = "string option \<times> 'f"

record 'f world =
  which_found :: "string \<Rightarrow> bool"
  path_exists :: "string \<Rightarrow> bool"
  popen_stdout :: "string list \<Rightarrow> 'f timed_line list"

subsection \<open>The data classes\<close>

record 'f Output =
  percent :: int
  features :: "string \<rightharpoonup> 'f"

record 'f ProblemResults =
  model :: string
  problem_instance :: "string option"
  solved :: bool
  results :: "'f Output list"

subsection \<open>Python list indexing and string primitives\<close>

definition py_index :: "'a list \<Rightarrow> int \<Rightarrow> pyerror + 'a" where
  "py_index xs i =
     (if 0 \<le> i \<and> i < int (length xs) then Inr (xs ! nat i)
      else if i < 0 \<and> - int (length xs) \<le> i then Inr (xs ! nat (int (length xs) + i))
      else Inl IndexError)"

text \<open>\<open>s.split(c)\<close> for a one-character separator: never empty, one more part than separators.\<close>

fun split_sep :: "char \<Rightarrow> string \<Rightarrow> string list" where
  "split_sep c [] = [[]]"
| "split_sep c (x # xs) =
     (if x = c then [] # split_sep c xs
      else (x # hd (split_sep c xs)) # tl (split_sep c xs))"

text \<open>\<open>str(n)\<close> for an integer.\<close>

fun str_nat :: "nat \<Rightarrow> string" where
  "str_nat n =
     (if n < 10 then [char_of (48 + n)]
      else str_nat (n div 10) @ [char_of (48 + n mod 10)])"

declare str_nat.simps [simp del]

definition str_int :: "int \<Rightarrow> string" where
  "str_int i = (if i < 0 then CHR ''-'' # str_nat (nat (- i)) else str_nat (nat i))"

subsection \<open>The line classifier\<close>

definition is_stat_related :: "string \<Rightarrow> bool" where
  "is_stat_related line = (take 11 line = ''%%%mzn-stat'')"

definition is_stat_value :: "string \<Rightarrow> bool" where
  "is_stat_value line = (take 13 line = ''%%%mzn-stat: '')"

definition stat_block_end :: "string \<Rightarrow> bool" where
  "stat_block_end line = (take 15 line = ''%%%mzn-stat-end'')"

definition is_solution :: "string \<Rightarrow> bool" where
  "is_solution line = (line = ''----------\<newline>'')"

subsection \<open>The checkpoint scheduler\<close>

definition reached_save_point ::
  "'f float_ops \<Rightarrow> 'f \<Rightarrow> int \<Rightarrow> int list \<Rightarrow> int \<Rightarrow> pyerror + bool" where
  "reached_save_point F elapsed timeout save_percentages save_idx =
     (if save_idx = int (length save_percentages) then Inr False
      else
        (case int_truediv F timeout 1000 of Inl e \<Rightarrow> Inl e | Inr budget \<Rightarrow>
        (case float_truediv F elapsed budget of Inl e \<Rightarrow> Inl e | Inr percentage_time_elapsed \<Rightarrow>
        (case py_index save_percentages save_idx of Inl e \<Rightarrow> Inl e | Inr p \<Rightarrow>
        (case int_truediv F p 100 of Inl e \<Rightarrow> Inl e | Inr save_point_percentage \<Rightarrow>
           Inr (float_ge F percentage_time_elapsed save_point_percentage))))))"

subsection \<open>The loop of \<open>run_problem\<close>\<close>

text \<open>
  The local variables of \<open>run_problem\<close> that the loop reads and writes. \<open>results_v\<close> is the
  list \<open>results.results\<close> and \<open>output_v\<close> the variable \<open>output\<close>. Appending \<open>output\<close> to the
  list and then rebinding \<open>output\<close> to a fresh object leaves the appended object without any
  other reference, so a list of values models the list of objects.
\<close>

record 'f locals =
  results_v :: "'f Output list"
  save_idx :: int
  next_save_point :: int
  output_v :: "'f Output"
  capture_next_block :: bool
  is_next_block :: bool
  found_one_solution :: bool

text \<open>Lines 89 to 93: the due check, made only while no capture is under way.\<close>

definition check_capture ::
  "'f float_ops \<Rightarrow> int \<Rightarrow> int list \<Rightarrow> 'f \<Rightarrow> 'f locals \<Rightarrow> pyerror + 'f locals" where
  "check_capture F time_limit save_percentages elapsed st =
     (if capture_next_block st then Inr st
      else
        case reached_save_point F elapsed time_limit save_percentages (save_idx st) of
          Inl e \<Rightarrow> Inl e
        | Inr False \<Rightarrow> Inr st
        | Inr True \<Rightarrow>
            (case py_index save_percentages (save_idx st) of
               Inl e \<Rightarrow> Inl e
             | Inr p \<Rightarrow>
                 Inr (st\<lparr>capture_next_block := True,
                         next_save_point := p,
                         save_idx := save_idx st + 1\<rparr>)))"

text \<open>Lines 97 and 98: split the text after the prefix, convert, store.\<close>

definition store_value :: "'f float_ops \<Rightarrow> string \<Rightarrow> 'f locals \<Rightarrow> pyerror + 'f locals" where
  "store_value F line st =
     (case split_sep CHR ''='' (drop 13 line) of
        [name, stat] \<Rightarrow>
          (case float_of_str F stat of
             Inl e \<Rightarrow> Inl e
           | Inr v \<Rightarrow>
               Inr (st\<lparr>output_v := (output_v st)\<lparr>features := (features (output_v st))(name \<mapsto> v)\<rparr>\<rparr>))
      | _ \<Rightarrow> Inl ValueError)"

text \<open>Lines 95 to 107: what a statistics line does to the capture flags and the snapshot.\<close>

definition capture_line :: "'f float_ops \<Rightarrow> string \<Rightarrow> 'f locals \<Rightarrow> pyerror + 'f locals" where
  "capture_line F line st =
     (if capture_next_block st \<and> is_next_block st then
        (if is_stat_value line then store_value F line st
         else if stat_block_end line then
           Inr (st\<lparr>capture_next_block := False,
                   is_next_block := False,
                   results_v := results_v st @ [output_v st],
                   output_v := \<lparr>percent = next_save_point st, features = Map.empty\<rparr>\<rparr>)
         else Inr st)
      else if capture_next_block st \<and> stat_block_end line then Inr (st\<lparr>is_next_block := True\<rparr>)
      else Inr st)"

text \<open>Lines 82 to 107: one iteration of the loop.\<close>

definition loop_body ::
  "'f float_ops \<Rightarrow> int \<Rightarrow> int list \<Rightarrow> 'f locals \<Rightarrow> 'f timed_line \<Rightarrow> pyerror + 'f locals" where
  "loop_body F time_limit save_percentages st tline =
     (case fst tline of
        None \<Rightarrow> Inl UnicodeDecodeError
      | Some line \<Rightarrow>
          (let st1 = (if \<not> found_one_solution st \<and> is_solution line
                      then st\<lparr>found_one_solution := True\<rparr> else st)
           in if is_stat_related line then
                (case check_capture F time_limit save_percentages (snd tline) st1 of
                   Inl e \<Rightarrow> Inl e
                 | Inr st2 \<Rightarrow> capture_line F line st2)
              else Inr st1))"

text \<open>Line 81: the loop over the lines; an exception ends it.\<close>

fun run_loop ::
  "'f float_ops \<Rightarrow> int \<Rightarrow> int list \<Rightarrow> 'f locals \<Rightarrow> 'f timed_line list \<Rightarrow> pyerror + 'f locals" where
  "run_loop F time_limit save_percentages st [] = Inr st"
| "run_loop F time_limit save_percentages st (tline # rest) =
     (case loop_body F time_limit save_percentages st tline of
        Inl e \<Rightarrow> Inl e
      | Inr st' \<Rightarrow> run_loop F time_limit save_percentages st' rest)"

subsection \<open>\<open>run_problem\<close>\<close>

text \<open>Lines 62 to 70: the locals after setup, given \<open>save_percentages[0]\<close>.\<close>

definition setup_locals :: "int \<Rightarrow> 'f locals" where
  "setup_locals p =
     \<lparr>results_v = [], save_idx = 0, next_save_point = p,
      output_v = \<lparr>percent = p, features = Map.empty\<rparr>,
      capture_next_block = False, is_next_block = False, found_one_solution = False\<rparr>"

text \<open>Lines 72 to 75: the command line of the child.\<close>

definition solver_command :: "string \<Rightarrow> string option \<Rightarrow> string \<Rightarrow> int \<Rightarrow> string \<Rightarrow> string list" where
  "solver_command model_path instance_path executable time_limit solver =
     (case instance_path of
        Some inst \<Rightarrow> [executable, model_path, inst, ''--solver'', solver, ''-t'', str_int time_limit]
      | None \<Rightarrow> [executable, model_path, ''--solver'', solver, ''-t'', str_int time_limit])"

text \<open>
  \<open>run_problem\<close> returns a pair: the command of the child process if one was spawned
  (\<open>None\<close> when the function left before \<open>Popen\<close>), and the raised exception or the
  returned \<open>ProblemResults\<close>. An instance path is checked only when it is truthy, that is
  neither \<open>None\<close> nor the empty string.
\<close>

definition run_problem ::
  "'f world \<Rightarrow> 'f float_ops \<Rightarrow> string \<Rightarrow> string option \<Rightarrow> string \<Rightarrow> int \<Rightarrow> int list \<Rightarrow> string
     \<Rightarrow> string list option \<times> (pyerror + 'f ProblemResults)" where
  "run_problem W F model_path instance_path executable time_limit save_percentages solver =
     (if \<not> which_found W executable then (None, Inl FileNotFoundError)
      else if \<not> path_exists W model_path then (None, Inl FileNotFoundError)
      else if (case instance_path of None \<Rightarrow> False | Some inst \<Rightarrow> inst \<noteq> [] \<and> \<not> path_exists W inst)
        then (None, Inl FileNotFoundError)
      else
        case py_index save_percentages 0 of
          Inl e \<Rightarrow> (None, Inl e)
        | Inr p \<Rightarrow>
            (let command = solver_command model_path instance_path executable time_limit solver
             in (Some command,
                 case run_loop F time_limit save_percentages (setup_locals p)
                        (popen_stdout W command) of
                   Inl e \<Rightarrow> Inl e
                 | Inr st \<Rightarrow>
                     Inr \<lparr>model = model_path, problem_instance = instance_path,
                          solved = found_one_solution st, results = results_v st\<rparr>)))"

section \<open>Exact arithmetic: an instance of the float primitives\<close>

text \<open>
  To run the model on concrete inputs the float primitives are instantiated with exact
  arithmetic on the rationals extended by the two infinities and not-a-number. Rounding to
  binary64, overflow and the sign of zero are not represented. \<open>xfloat_of_str\<close> follows the
  grammar of \<open>float(s)\<close>: surrounding white space, a sign, \<open>inf\<close>, \<open>infinity\<close> and \<open>nan\<close> in
  any case, digits with single underscores between them, a fraction and an exponent.
\<close>

datatype xfloat = Fin rat | PInf | NInf | NaN

definition is_space :: "char \<Rightarrow> bool" where
  "is_space c =
     (let n = (of_char c :: nat)
      in (9 \<le> n \<and> n \<le> 13) \<or> n = 32 \<or> n = 133 \<or> n = 160)"

definition strip :: "string \<Rightarrow> string" where
  "strip s = rev (dropWhile is_space (rev (dropWhile is_space s)))"

definition is_digit :: "char \<Rightarrow> bool" where
  "is_digit c = (48 \<le> (of_char c :: nat) \<and> (of_char c :: nat) \<le> 57)"

definition digit_val :: "char \<Rightarrow> nat" where
  "digit_val c = of_char c - 48"

definition to_lower :: "char \<Rightarrow> char" where
  "to_lower c =
     (if 65 \<le> (of_char c :: nat) \<and> (of_char c :: nat) \<le> 90
      then char_of (of_char c + 32 :: nat) else c)"

fun digitpart :: "string \<Rightarrow> nat list option" where
  "digitpart [] = None"
| "digitpart [c] = (if is_digit c then Some [digit_val c] else None)"
| "digitpart (c # d # cs) =
     (if \<not> is_digit c then None
      else if d = CHR ''_'' then map_option ((#) (digit_val c)) (digitpart cs)
      else map_option ((#) (digit_val c)) (digitpart (d # cs)))"

definition digits_value :: "nat list \<Rightarrow> nat" where
  "digits_value ds = foldl (\<lambda>a d. 10 * a + d) 0 ds"

definition split_sign :: "string \<Rightarrow> bool \<times> string" where
  "split_sign s =
     (case s of
        c # cs \<Rightarrow>
          if c = CHR ''-'' then (True, cs) else if c = CHR ''+'' then (False, cs) else (False, s)
      | [] \<Rightarrow> (False, s))"

definition mantissa :: "string \<Rightarrow> rat option" where
  "mantissa s =
     (let ip = takeWhile (\<lambda>c. c \<noteq> CHR ''.'') s; rest = dropWhile (\<lambda>c. c \<noteq> CHR ''.'') s
      in if rest = [] then map_option (\<lambda>ds. of_nat (digits_value ds)) (digitpart ip)
         else
           (let fp = tl rest
            in if fp = [] then map_option (\<lambda>ds. of_nat (digits_value ds)) (digitpart ip)
               else
                 (case (if ip = [] then Some [] else digitpart ip, digitpart fp) of
                    (Some ids, Some fds) \<Rightarrow>
                      Some (of_nat (digits_value ids) + of_nat (digits_value fds) / 10 ^ length fds)
                  | _ \<Rightarrow> None)))"

definition exponent :: "string \<Rightarrow> int option" where
  "exponent s =
     (case split_sign s of
        (neg, ds) \<Rightarrow>
          map_option (\<lambda>d. if neg then - int (digits_value d) else int (digits_value d))
            (digitpart ds))"

definition floatnumber :: "string \<Rightarrow> rat option" where
  "floatnumber s =
     (let is_e = (\<lambda>c. c = CHR ''e'' \<or> c = CHR ''E'');
          m = takeWhile (\<lambda>c. \<not> is_e c) s; rest = dropWhile (\<lambda>c. \<not> is_e c) s
      in if rest = [] then mantissa m
         else
           (case (mantissa m, exponent (tl rest)) of
              (Some v, Some k) \<Rightarrow> Some (if 0 \<le> k then v * 10 ^ nat k else v / 10 ^ nat (- k))
            | _ \<Rightarrow> None))"

definition xfloat_of_str :: "string \<Rightarrow> pyerror + xfloat" where
  "xfloat_of_str s =
     (case split_sign (strip s) of
        (neg, body) \<Rightarrow>
          if map to_lower body = ''inf'' \<or> map to_lower body = ''infinity''
            then Inr (if neg then NInf else PInf)
          else if map to_lower body = ''nan'' then Inr NaN
          else
            (case floatnumber body of
               None \<Rightarrow> Inl ValueError
             | Some v \<Rightarrow> Inr (Fin (if neg then - v else v))))"

fun xfloat_div :: "xfloat \<Rightarrow> xfloat \<Rightarrow> pyerror + xfloat" where
  "xfloat_div x (Fin b) =
     (if b = 0 then Inl ZeroDivisionError
      else case x of
             Fin a \<Rightarrow> Inr (Fin (a / b))
           | PInf \<Rightarrow> Inr (if 0 < b then PInf else NInf)
           | NInf \<Rightarrow> Inr (if 0 < b then NInf else PInf)
           | NaN \<Rightarrow> Inr NaN)"
| "xfloat_div (Fin a) PInf = Inr (Fin 0)"
| "xfloat_div (Fin a) NInf = Inr (Fin 0)"
| "xfloat_div x y = Inr NaN"

fun xfloat_ge :: "xfloat \<Rightarrow> xfloat \<Rightarrow> bool" where
  "xfloat_ge NaN y = False"
| "xfloat_ge x NaN = False"
| "xfloat_ge (Fin a) (Fin b) = (b \<le> a)"
| "xfloat_ge PInf y = True"
| "xfloat_ge x NInf = True"
| "xfloat_ge x y = False"

definition exact_arith :: "xfloat float_ops" where
  "exact_arith =
     \<lparr>int_truediv =
        (\<lambda>a b. if b = 0 then Inl ZeroDivisionError else Inr (Fin (of_int a / of_int b))),
      float_truediv = xfloat_div,
      float_ge = xfloat_ge,
      float_of_str = xfloat_of_str\<rparr>"

text \<open>
  A world in which the executable and every path exist and the child prints the given
  lines, whatever its command line.
\<close>

definition world_printing :: "'f timed_line list \<Rightarrow> 'f world" where
  "world_printing stream =
     \<lparr>which_found = (\<lambda>_. True), path_exists = (\<lambda>_. True), popen_stdout = (\<lambda>_. stream)\<rparr>"

section \<open>Streams of well-formed statistics blocks\<close>

text \<open>
  The lines the solver prints for its statistics: a value line is the 13-character prefix,
  a name, \<open>=\<close>, the value's text and the line end; the end marker closes a block.
\<close>

definition value_line :: "string \<Rightarrow> string \<Rightarrow> string" where
  "value_line name stat = ''%%%mzn-stat: '' @ name @ ''='' @ stat @ ''\<newline>''"

definition end_line :: string where
  "end_line = ''%%%mzn-stat-end\<newline>''"

text \<open>
  A statistics block as it appears in the stream: value lines, given as name, value text
  and sampling time, and then the end marker with its own sampling time.
\<close>

type_synonym 'f block = "(string \<times> string \<times> 'f) list \<times> 'f"

definition block_lines :: "'f block \<Rightarrow> 'f timed_line list" where
  "block_lines b =
     map (\<lambda>(name, stat, t). (Some (value_line name stat), t)) (fst b) @ [(Some end_line, snd b)]"

definition first_time :: "'f block \<Rightarrow> 'f" where
  "first_time b = (case fst b of [] \<Rightarrow> snd b | (name, stat, t) # _ \<Rightarrow> t)"

text \<open>
  A block is well formed when no name and no value text contains \<open>=\<close> and \<open>float\<close> accepts
  every value text (with the line end that the code leaves on it).
\<close>

definition well_formed :: "'f float_ops \<Rightarrow> 'f block \<Rightarrow> bool" where
  "well_formed F b =
     list_all (\<lambda>(name, stat, t). CHR ''='' \<notin> set name \<and> CHR ''='' \<notin> set stat \<and>
                 \<not> isl (float_of_str F (stat @ ''\<newline>''))) (fst b)"

text \<open>The mapping that the value lines of a block describe, later lines overwriting earlier ones.\<close>

definition store_all ::
  "'f float_ops \<Rightarrow> (string \<times> string \<times> 'f) list \<Rightarrow> (string \<rightharpoonup> 'f) \<Rightarrow> (string \<rightharpoonup> 'f)" where
  "store_all F vals m =
     foldl (\<lambda>m (name, stat, t). m(name \<mapsto> projr (float_of_str F (stat @ ''\<newline>'')))) m vals"

definition block_features :: "'f float_ops \<Rightarrow> 'f block \<Rightarrow> (string \<rightharpoonup> 'f)" where
  "block_features F b = store_all F (fst b) Map.empty"

text \<open>
  The stream for a list of pairs of blocks: of each pair first the block during which the
  capture is begun, then the block that is captured.
\<close>

definition pair_lines :: "'f block \<times> 'f block \<Rightarrow> 'f timed_line list" where
  "pair_lines bb = block_lines (fst bb) @ block_lines (snd bb)"

definition pairs_stream :: "('f block \<times> 'f block) list \<Rightarrow> 'f timed_line list" where
  "pairs_stream pairs = concat (map pair_lines pairs)"

text \<open>
  From target number \<open>k\<close> on, one target is due at the first line of each pair, in order.
\<close>

fun due_in_turn ::
  "'f float_ops \<Rightarrow> int \<Rightarrow> int list \<Rightarrow> nat \<Rightarrow> ('f block \<times> 'f block) list \<Rightarrow> bool" where
  "due_in_turn F time_limit save_percentages k [] = True"
| "due_in_turn F time_limit save_percentages k (bb # rest) =
     (reached_save_point F (first_time (fst bb)) time_limit save_percentages (int k) = Inr True \<and>
      due_in_turn F time_limit save_percentages (Suc k) rest)"

text \<open>
  The lines of a stream that reach line 87 and pass its test, in order; all other decoded
  lines only take part in the search for the solution marker.
\<close>

definition decoded :: "'f timed_line \<Rightarrow> bool" where
  "decoded tline = (fst tline \<noteq> None)"

definition stat_line :: "'f timed_line \<Rightarrow> bool" where
  "stat_line tline = (case fst tline of None \<Rightarrow> False | Some line \<Rightarrow> is_stat_related line)"

definition statistics_lines :: "'f timed_line list \<Rightarrow> 'f timed_line list" where
  "statistics_lines stream = filter stat_line stream"

definition solution_seen :: "'f timed_line list \<Rightarrow> bool" where
  "solution_seen stream = list_ex (\<lambda>tline. fst tline = Some ''----------\<newline>'') stream"

section \<open>Beginning a capture\<close>

text \<open>
  The condition under which line 89 begins a capture: the line is decoded and related to
  statistics (line 87), no capture is under way, and the due check returns \<open>True\<close>.
\<close>

definition begins_capture ::
  "'f float_ops \<Rightarrow> int \<Rightarrow> int list \<Rightarrow> 'f locals \<Rightarrow> 'f timed_line \<Rightarrow> bool" where
  "begins_capture F time_limit save_percentages st tline =
     (case fst tline of
        None \<Rightarrow> False
      | Some line \<Rightarrow>
          is_stat_related line \<and> \<not> capture_next_block st \<and>
          reached_save_point F (snd tline) time_limit save_percentages (save_idx st) = Inr True)"

section \<open>The line classifier\<close>

lemma take_eq_prefix: "length p = n \<Longrightarrow> (take n l = p) = prefix p l"
  by (metis append_eq_conv_conj prefix_def)

text \<open>
  C6. Each of the three predicates is exactly a prefix test against its literal, and the
  empty line satisfies none of them (nor is it a solution line).
\<close>

theorem classifier_prefixes:
  "is_stat_related line = prefix ''%%%mzn-stat'' line \<and>
   is_stat_value line = prefix ''%%%mzn-stat: '' line \<and>
   stat_block_end line = prefix ''%%%mzn-stat-end'' line \<and>
   \<not> is_stat_related [] \<and> \<not> is_stat_value [] \<and> \<not> stat_block_end [] \<and> \<not> is_solution []"
  by (simp add: is_stat_related_def is_stat_value_def stat_block_end_def is_solution_def
      take_eq_prefix)

section \<open>The checkpoint scheduler\<close>

text \<open>
  C8. \<open>reached_save_point\<close> returns \<open>True\<close> exactly when the index is below the length of
  the list and the comparison of the two quotients holds; the quotients are those that the
  float primitives give, and an exception of a primitive or of the indexing is not a return.
  Under exact arithmetic, with a non-zero time limit and an index from \<open>0\<close> to the length,
  the function returns, and returns the truth value of that conjunction.
\<close>

theorem reached_save_point_iff:
  "(reached_save_point F elapsed timeout sps idx = Inr True \<longleftrightarrow>
      idx < int (length sps) \<and>
      (\<exists>budget pte p spp.
          int_truediv F timeout 1000 = Inr budget \<and> float_truediv F elapsed budget = Inr pte \<and>
          py_index sps idx = Inr p \<and> int_truediv F p 100 = Inr spp \<and> float_ge F pte spp))
   \<and> (timeout \<noteq> 0 \<and> 0 \<le> idx \<and> idx \<le> int (length sps) \<longrightarrow>
        reached_save_point exact_arith (Fin e) timeout sps idx =
          Inr (idx < int (length sps) \<and>
               of_int (sps ! nat idx) / 100 \<le> e / (of_int timeout / 1000)))"
proof -
  have general: "reached_save_point F elapsed timeout sps idx = Inr True \<longleftrightarrow>
      idx < int (length sps) \<and>
      (\<exists>budget pte p spp.
          int_truediv F timeout 1000 = Inr budget \<and> float_truediv F elapsed budget = Inr pte \<and>
          py_index sps idx = Inr p \<and> int_truediv F p 100 = Inr spp \<and> float_ge F pte spp)"
    by (auto simp: reached_save_point_def py_index_def split: sum.splits if_splits)
  have exact: "reached_save_point exact_arith (Fin e) timeout sps idx =
          Inr (idx < int (length sps) \<and>
               of_int (sps ! nat idx) / 100 \<le> e / (of_int timeout / 1000))"
    if "timeout \<noteq> 0" "0 \<le> idx" "idx \<le> int (length sps)"
    using that by (auto simp: reached_save_point_def py_index_def exact_arith_def)
  from general exact show ?thesis by blast
qed

theorem reached_save_point_iff_witness:
  "reached_save_point exact_arith (Fin (3/5)) 1000 [50] 0 = Inr True \<and>
   reached_save_point exact_arith (Fin (2/5)) 1000 [50] 0 = Inr False \<and>
   reached_save_point exact_arith (Fin (3/5)) 1000 [50] 1 = Inr False"
  using reached_save_point_iff [of exact_arith "Fin (3/5)" 1000 "[50]" 0 "3/5"]
    reached_save_point_iff [of exact_arith "Fin (3/5)" 1000 "[50]" 0 "2/5"]
    reached_save_point_iff [of exact_arith "Fin (3/5)" 1000 "[50]" 1 "3/5"]
  by simp

section \<open>Setup\<close>

text \<open>
  C10. When the three precondition checks pass and \<open>save_percentages\<close> is empty,
  \<open>run_problem\<close> raises \<open>IndexError\<close> and no child process has been spawned.
\<close>

theorem run_problem_empty_save_percentages:
  assumes "which_found W executable" and "path_exists W model_path"
    and "case instance_path of None \<Rightarrow> True | Some inst \<Rightarrow> inst = [] \<or> path_exists W inst"
  shows "run_problem W F model_path instance_path executable time_limit [] solver
           = (None, Inl IndexError)"
  using assms by (auto simp: run_problem_def py_index_def split: option.splits)

theorem run_problem_empty_save_percentages_witness:
  "run_problem (world_printing [(Some ''----------\<newline>'', Fin 0)]) exact_arith
      ''m.mzn'' (Some ''d.dzn'') ''minizinc'' 7200000 [] ''org.chuffed.modded-chuffed''
     = (None, Inl IndexError)"
  by (rule run_problem_empty_save_percentages) (simp_all add: world_printing_def)

section \<open>The loop, step by step\<close>

lemmas classifier_defs = is_stat_related_def is_stat_value_def stat_block_end_def is_solution_def

lemma split_sep_not_Nil: "split_sep c s \<noteq> []"
  by (induction s) auto

lemma run_loop_append:
  "run_loop F time_limit sps st (xs @ ys) =
     (case run_loop F time_limit sps st xs of Inl e \<Rightarrow> Inl e | Inr st' \<Rightarrow> run_loop F time_limit sps st' ys)"
  by (induction xs arbitrary: st) (auto split: sum.splits)

lemma py_index_Inr_less: "py_index xs i = Inr p \<Longrightarrow> i < int (length xs)"
  by (auto simp: py_index_def split: if_splits)

subsection \<open>What one step changes\<close>

lemma store_value_fields:
  "store_value F line st = Inr st' \<Longrightarrow>
     results_v st' = results_v st \<and> save_idx st' = save_idx st \<and>
     next_save_point st' = next_save_point st \<and>
     capture_next_block st' = capture_next_block st \<and> is_next_block st' = is_next_block st \<and>
     found_one_solution st' = found_one_solution st"
  by (auto simp: store_value_def split: list.splits sum.splits)

lemma check_capture_fields:
  "check_capture F time_limit sps elapsed st = Inr st' \<Longrightarrow>
     results_v st' = results_v st \<and> output_v st' = output_v st \<and>
     is_next_block st' = is_next_block st \<and>
     found_one_solution st' = found_one_solution st"
  by (auto simp: check_capture_def split: if_splits sum.splits bool.splits)

lemma check_capture_save_idx:
  "check_capture F time_limit sps elapsed st = Inr st' \<Longrightarrow>
     (if \<not> capture_next_block st \<and>
         reached_save_point F elapsed time_limit sps (save_idx st) = Inr True
      then save_idx st' = save_idx st + 1 \<and> capture_next_block st' \<and> save_idx st < int (length sps)
      else st' = st)"
  by (auto simp: check_capture_def split: if_splits sum.splits bool.splits dest: py_index_Inr_less)

lemma capture_line_fields:
  "capture_line F line st = Inr st' \<Longrightarrow>
     save_idx st' = save_idx st \<and> found_one_solution st' = found_one_solution st"
  by (auto simp: capture_line_def split: if_splits dest: store_value_fields)

lemma capture_line_balance:
  "capture_line F line st = Inr st' \<Longrightarrow>
     int (length (results_v st')) + (if capture_next_block st' then 1 else 0)
       = int (length (results_v st)) + (if capture_next_block st then 1 else 0)"
  by (auto simp: capture_line_def split: if_splits dest: store_value_fields)

lemma loop_body_found:
  "loop_body F time_limit sps st (raw, elapsed) = Inr st' \<Longrightarrow>
     found_one_solution st' = (found_one_solution st \<or> raw = Some ''----------\<newline>'')"
  by (auto simp: loop_body_def Let_def is_solution_def split: option.splits if_splits sum.splits
      dest!: check_capture_fields capture_line_fields)

lemma loop_body_save_idx:
  assumes "loop_body F time_limit sps st tline = Inr st'"
  shows "save_idx st' = save_idx st + (if begins_capture F time_limit sps st tline then 1 else 0)"
proof (cases "fst tline")
  case None
  with assms show ?thesis by (simp add: loop_body_def)
next
  case (Some line)
  show ?thesis
  proof (cases "is_stat_related line")
    case False
    with assms Some show ?thesis
      by (auto simp: loop_body_def begins_capture_def Let_def split: if_splits)
  next
    case True
    define st1 where "st1 = (if \<not> found_one_solution st \<and> is_solution line
                      then st\<lparr>found_one_solution := True\<rparr> else st)"
    have st1: "save_idx st1 = save_idx st" "capture_next_block st1 = capture_next_block st"
      by (simp_all add: st1_def)
    from assms Some True obtain st2 where
      cc: "check_capture F time_limit sps (snd tline) st1 = Inr st2" and
      cl: "capture_line F line st2 = Inr st'"
      by (auto simp: loop_body_def Let_def st1_def split: sum.splits)
    from check_capture_save_idx [OF cc] capture_line_fields [OF cl] st1 Some True
    show ?thesis
      by (auto simp: begins_capture_def split: if_splits)
  qed
qed

lemma loop_body_balance:
  assumes "loop_body F time_limit sps st tline = Inr st'"
    and "save_idx st = int (length (results_v st)) + (if capture_next_block st then 1 else 0)"
    and "save_idx st \<le> int (length sps)"
  shows "save_idx st' = int (length (results_v st')) + (if capture_next_block st' then 1 else 0)
         \<and> save_idx st' \<le> int (length sps)"
proof (cases "fst tline")
  case None
  with assms show ?thesis by (simp add: loop_body_def)
next
  case (Some line)
  show ?thesis
  proof (cases "is_stat_related line")
    case False
    with assms Some show ?thesis
      by (auto simp: loop_body_def Let_def split: if_splits)
  next
    case True
    define st1 where "st1 = (if \<not> found_one_solution st \<and> is_solution line
                      then st\<lparr>found_one_solution := True\<rparr> else st)"
    have st1: "save_idx st1 = save_idx st" "capture_next_block st1 = capture_next_block st"
      "results_v st1 = results_v st"
      by (simp_all add: st1_def)
    from assms Some True obtain st2 where
      cc: "check_capture F time_limit sps (snd tline) st1 = Inr st2" and
      cl: "capture_line F line st2 = Inr st'"
      by (auto simp: loop_body_def Let_def st1_def split: sum.splits)
    have "save_idx st2 = int (length (results_v st2)) + (if capture_next_block st2 then 1 else 0)
          \<and> save_idx st2 \<le> int (length sps)"
      using check_capture_save_idx [OF cc] check_capture_fields [OF cc] st1 assms(2,3)
      by (auto split: if_splits)
    with capture_line_balance [OF cl] capture_line_fields [OF cl]
    show ?thesis by simp
  qed
qed

lemma run_loop_balance:
  "run_loop F time_limit sps st stream = Inr st' \<Longrightarrow>
   save_idx st = int (length (results_v st)) + (if capture_next_block st then 1 else 0) \<Longrightarrow>
   save_idx st \<le> int (length sps) \<Longrightarrow>
   save_idx st' = int (length (results_v st')) + (if capture_next_block st' then 1 else 0)
     \<and> save_idx st' \<le> int (length sps)"
proof (induction stream arbitrary: st)
  case Nil
  then show ?case by simp
next
  case (Cons tline rest)
  from Cons.prems(1) obtain st1 where
    one: "loop_body F time_limit sps st tline = Inr st1" and
    more: "run_loop F time_limit sps st1 rest = Inr st'"
    by (auto split: sum.splits)
  from loop_body_balance [OF one Cons.prems(2,3)] Cons.IH [OF more]
  show ?case by blast
qed

lemma run_loop_found:
  "run_loop F time_limit sps st stream = Inr st' \<Longrightarrow>
   found_one_solution st' =
     (found_one_solution st \<or> (\<exists>tline \<in> set stream. fst tline = Some ''----------\<newline>''))"
proof (induction stream arbitrary: st)
  case Nil
  then show ?case by simp
next
  case (Cons tline rest)
  from Cons.prems obtain st1 where
    one: "loop_body F time_limit sps st (fst tline, snd tline) = Inr st1" and
    more: "run_loop F time_limit sps st1 rest = Inr st'"
    by (auto split: sum.splits)
  from loop_body_found [OF one] Cons.IH [OF more]
  show ?case by auto
qed

lemma setup_locals_balance:
  "save_idx (setup_locals p) = int (length (results_v (setup_locals p))) +
      (if capture_next_block (setup_locals p) then 1 else 0)"
  "save_idx (setup_locals p) \<le> int (length sps)"
  "\<not> found_one_solution (setup_locals p)"
  by (simp_all add: setup_locals_def)

subsection \<open>Evaluation and splitting\<close>

lemmas run_defs = run_problem_def world_printing_def py_index_def setup_locals_def loop_body_def
  classifier_defs check_capture_def reached_save_point_def exact_arith_def capture_line_def
  store_value_def

lemmas parse_defs = xfloat_of_str_def strip_def is_space_def split_sign_def floatnumber_def
  mantissa_def digits_value_def is_digit_def digit_val_def to_lower_def

lemma split_sep_no_sep: "c \<notin> set s \<Longrightarrow> split_sep c s = [s]"
  by (induction s) auto

lemma split_sep_one_sep:
  "c \<notin> set a \<Longrightarrow> c \<notin> set b \<Longrightarrow> split_sep c (a @ c # b) = [a, b]"
  by (induction a) (auto simp: split_sep_no_sep)

lemma stat_related_not_solution: "is_stat_related line \<Longrightarrow> \<not> is_solution line"
  by (auto simp: classifier_defs)

lemma stat_value_related: "is_stat_value line \<Longrightarrow> is_stat_related line"
  by (auto simp: classifier_defs dest: arg_cong [where f = "take 11"])

section \<open>Value lines while the next block is captured\<close>

text \<open>
  C9. In the state that captures the next block, the line \<open>%%%mzn-stat: foo=3.5\<close>, with or
  without a line end after it, stores under \<open>foo\<close> the float that \<open>float\<close> returns for the
  text after \<open>=\<close>. The stored value replaces an earlier one; every other entry of the
  mapping and every other local variable stay as they were.
\<close>

theorem value_line_overwrites_feature:
  assumes "capture_next_block st" and "is_next_block st"
    and "CHR ''='' \<notin> set ending" and "float_of_str F (''3.5'' @ ending) = Inr v"
  shows "loop_body F time_limit sps st (Some (''%%%mzn-stat: foo=3.5'' @ ending), elapsed)
           = Inr (st\<lparr>output_v := (output_v st)\<lparr>features := (features (output_v st))(''foo'' \<mapsto> v)\<rparr>\<rparr>)"
proof -
  have "split_sep CHR ''='' (''foo'' @ CHR ''='' # (''3.5'' @ ending)) = [''foo'', ''3.5'' @ ending]"
    using assms(3) by (intro split_sep_one_sep) auto
  then show ?thesis
    using assms(1,2,4)
    by (simp add: loop_body_def classifier_defs check_capture_def capture_line_def store_value_def)
qed

theorem value_line_overwrites_feature_witness:
  "loop_body exact_arith 1000 [50]
     \<lparr>results_v = [], save_idx = 1, next_save_point = 50,
      output_v = \<lparr>percent = 50, features = [''foo'' \<mapsto> Fin 1, ''bar'' \<mapsto> Fin 2]\<rparr>,
      capture_next_block = True, is_next_block = True, found_one_solution = False\<rparr>
     (Some ''%%%mzn-stat: foo=3.5'', Fin (3/5))
   = Inr \<lparr>results_v = [], save_idx = 1, next_save_point = 50,
      output_v = \<lparr>percent = 50, features = [''foo'' \<mapsto> Fin 1, ''bar'' \<mapsto> Fin 2, ''foo'' \<mapsto> Fin (7/2)]\<rparr>,
      capture_next_block = True, is_next_block = True, found_one_solution = False\<rparr>
   \<and> [''foo'' \<mapsto> Fin 1, ''bar'' \<mapsto> Fin 2, ''foo'' \<mapsto> Fin (7/2)] ''foo'' = Some (Fin (7/2))
   \<and> [''foo'' \<mapsto> Fin 1, ''bar'' \<mapsto> Fin 2, ''foo'' \<mapsto> Fin (7/2)] ''bar'' = Some (Fin 2)"
proof -
  have parse: "float_of_str exact_arith (''3.5'' @ []) = Inr (Fin (7/2))"
    by (simp add: exact_arith_def parse_defs)
  show ?thesis
    using value_line_overwrites_feature [where F = exact_arith and ending = "[]" and v = "Fin (7/2)"
        and time_limit = 1000 and sps = "[50]" and elapsed = "Fin (3/5)"
        and st = "\<lparr>results_v = [], save_idx = 1, next_save_point = 50,
      output_v = \<lparr>percent = 50, features = [''foo'' \<mapsto> Fin 1, ''bar'' \<mapsto> Fin 2]\<rparr>,
      capture_next_block = True, is_next_block = True, found_one_solution = False\<rparr>", OF _ _ _ parse]
    by simp
qed

text \<open>
  C3. In the state that captures the next block, a value line whose text after the prefix
  does not split at \<open>=\<close> into exactly two parts, or whose second part \<open>float\<close> rejects,
  makes the loop body raise. The exception leaves \<open>run_problem\<close>, which returns no result,
  hence no snapshot for the block; when the split is at fault the exception is \<open>ValueError\<close>.
\<close>

theorem malformed_value_line_aborts:
  assumes "which_found W executable" and "path_exists W model_path"
    and "case instance_path of None \<Rightarrow> True | Some inst \<Rightarrow> inst = [] \<or> path_exists W inst"
    and "py_index sps 0 = Inr p"
    and "popen_stdout W (solver_command model_path instance_path executable time_limit solver)
           = before @ (Some line, elapsed) # rest"
    and "run_loop F time_limit sps (setup_locals p) before = Inr st"
    and "capture_next_block st" and "is_next_block st"
    and "is_stat_value line"
    and "\<forall>name stat. split_sep CHR ''='' (drop 13 line) = [name, stat] \<longrightarrow> isl (float_of_str F stat)"
  shows "\<exists>e. loop_body F time_limit sps st (Some line, elapsed) = Inl e \<and>
             snd (run_problem W F model_path instance_path executable time_limit sps solver) = Inl e \<and>
             (length (split_sep CHR ''='' (drop 13 line)) \<noteq> 2 \<longrightarrow> e = ValueError)"
proof -
  have related: "is_stat_related line"
    using assms(9) by (rule stat_value_related)
  have sv: "\<exists>e. store_value F line st = Inl e \<and>
             (length (split_sep CHR ''='' (drop 13 line)) \<noteq> 2 \<longrightarrow> e = ValueError)"
    using assms(10)
    by (cases "float_of_str F (split_sep CHR ''='' (drop 13 line) ! 1)")
       (auto simp: store_value_def split: list.splits sum.splits)
  then obtain e where e: "store_value F line st = Inl e"
    "length (split_sep CHR ''='' (drop 13 line)) \<noteq> 2 \<longrightarrow> e = ValueError" by blast
  have body: "loop_body F time_limit sps st (Some line, elapsed) = Inl e"
    using related stat_related_not_solution [OF related] assms(7,8,9) e(1)
    by (simp add: loop_body_def Let_def check_capture_def capture_line_def)
  have "run_loop F time_limit sps (setup_locals p) (before @ (Some line, elapsed) # rest) = Inl e"
    using assms(6) body by (simp add: run_loop_append)
  then have "snd (run_problem W F model_path instance_path executable time_limit sps solver) = Inl e"
    using assms(1-5) by (auto simp: run_problem_def split: option.splits)
  with body e(2) show ?thesis by blast
qed

theorem malformed_value_line_aborts_witness:
  "loop_body exact_arith 1000 [50]
      \<lparr>results_v = [], save_idx = 1, next_save_point = 50,
       output_v = \<lparr>percent = 50, features = Map.empty\<rparr>,
       capture_next_block = True, is_next_block = True, found_one_solution = False\<rparr>
      (Some ''%%%mzn-stat: garbage\<newline>'', Fin (3/5)) = Inl ValueError \<and>
   snd (run_problem
          (world_printing [(Some ''%%%mzn-stat-end\<newline>'', Fin (3/5)),
                           (Some ''%%%mzn-stat: garbage\<newline>'', Fin (3/5)),
                           (Some ''%%%mzn-stat-end\<newline>'', Fin (3/5))])
          exact_arith ''m.mzn'' None ''minizinc'' 1000 [50] ''chuffed'') = Inl ValueError"
proof -
  let ?st = "\<lparr>results_v = [], save_idx = 1, next_save_point = 50,
       output_v = \<lparr>percent = 50, features = Map.empty\<rparr>,
       capture_next_block = True, is_next_block = True, found_one_solution = False\<rparr> :: xfloat locals"
  let ?W = "world_printing [(Some ''%%%mzn-stat-end\<newline>'', Fin (3/5)),
                           (Some ''%%%mzn-stat: garbage\<newline>'', Fin (3/5)),
                           (Some ''%%%mzn-stat-end\<newline>'', Fin (3/5))]"
  have before: "run_loop exact_arith 1000 [50] (setup_locals 50) [(Some ''%%%mzn-stat-end\<newline>'', Fin (3/5))]
                  = Inr ?st"
    by (simp add: run_defs)
  have stream: "popen_stdout ?W (solver_command ''m.mzn'' None ''minizinc'' 1000 ''chuffed'')
      = [(Some ''%%%mzn-stat-end\<newline>'', Fin (3/5))] @
        (Some ''%%%mzn-stat: garbage\<newline>'', Fin (3/5)) # [(Some ''%%%mzn-stat-end\<newline>'', Fin (3/5))]"
    by (simp add: world_printing_def)
  have parts: "length (split_sep CHR ''='' (drop 13 ''%%%mzn-stat: garbage\<newline>'')) \<noteq> 2"
    by simp
  from malformed_value_line_aborts [where W = ?W and F = exact_arith and sps = "[50]" and p = 50
      and st = ?st and solver = "''chuffed''", OF _ _ _ _ stream before]
    parts
  show ?thesis
    by (simp add: world_printing_def py_index_def is_stat_value_def)
qed

section \<open>Targets and captures\<close>

text \<open>
  C7. A step of the loop adds one to \<open>save_idx\<close> when it begins a capture and nothing
  otherwise; no capture begins while one is under way. So after any run the number of
  targets consumed is the number of snapshots appended, plus one when a capture is pending:
  one target for each captured block, however many targets are due.
\<close>

theorem save_idx_advances_once_per_capture:
  "(loop_body F time_limit sps st tline = Inr st' \<longrightarrow>
      save_idx st' = save_idx st + (if begins_capture F time_limit sps st tline then 1 else 0)) \<and>
   (capture_next_block st \<longrightarrow> \<not> begins_capture F time_limit sps st tline) \<and>
   (py_index sps 0 = Inr p \<and> run_loop F time_limit sps (setup_locals p) stream = Inr st'' \<longrightarrow>
      save_idx st'' = int (length (results_v st'')) + (if capture_next_block st'' then 1 else 0))"
proof (intro conjI impI)
  assume "loop_body F time_limit sps st tline = Inr st'"
  then show "save_idx st' = save_idx st + (if begins_capture F time_limit sps st tline then 1 else 0)"
    by (rule loop_body_save_idx)
next
  assume "capture_next_block st"
  then show "\<not> begins_capture F time_limit sps st tline"
    by (simp add: begins_capture_def split: option.splits)
next
  assume "py_index sps 0 = Inr p \<and> run_loop F time_limit sps (setup_locals p) stream = Inr st''"
  then have "run_loop F time_limit sps (setup_locals p) stream = Inr st''" by simp
  from run_loop_balance [OF this setup_locals_balance(1,2)]
  show "save_idx st'' = int (length (results_v st'')) + (if capture_next_block st'' then 1 else 0)"
    by simp
qed

text \<open>At 900 ms of 1000 ms both targets of [5, 10] are due; the statistics line consumes one.\<close>

theorem save_idx_advances_once_per_capture_witness:
  "reached_save_point exact_arith (Fin (9/10)) 1000 [5, 10] 0 = Inr True \<and>
   reached_save_point exact_arith (Fin (9/10)) 1000 [5, 10] 1 = Inr True \<and>
   loop_body exact_arith 1000 [5, 10] (setup_locals 5) (Some ''%%%mzn-stat: x=1\<newline>'', Fin (9/10))
     = Inr ((setup_locals 5)\<lparr>capture_next_block := True, next_save_point := 5, save_idx := 1\<rparr>) \<and>
   save_idx ((setup_locals 5 :: xfloat locals)\<lparr>capture_next_block := True, next_save_point := 5, save_idx := 1\<rparr>)
     = save_idx (setup_locals 5 :: xfloat locals) + 1"
proof -
  have due: "reached_save_point exact_arith (Fin (9/10)) 1000 [5, 10] 0 = Inr True"
    "reached_save_point exact_arith (Fin (9/10)) 1000 [5, 10] 1 = Inr True"
    by (simp_all add: run_defs)
  have step: "loop_body exact_arith 1000 [5, 10] (setup_locals 5) (Some ''%%%mzn-stat: x=1\<newline>'', Fin (9/10))
     = Inr ((setup_locals 5)\<lparr>capture_next_block := True, next_save_point := 5, save_idx := 1\<rparr>)"
    by (simp add: run_defs)
  have "begins_capture exact_arith 1000 [5, 10] (setup_locals 5) (Some ''%%%mzn-stat: x=1\<newline>'', Fin (9/10))"
    using due(1) by (simp add: begins_capture_def is_stat_related_def setup_locals_def)
  with save_idx_advances_once_per_capture [where F = exact_arith and time_limit = 1000
      and sps = "[5, 10]" and st = "setup_locals 5"
      and tline = "(Some ''%%%mzn-stat: x=1\<newline>'', Fin (9/10))"
      and st' = "(setup_locals 5)\<lparr>capture_next_block := True, next_save_point := 5, save_idx := 1\<rparr>"]
    step due
  show ?thesis by simp
qed

section \<open>The solved flag\<close>

text \<open>
  C4. After a step the flag \<open>found_one_solution\<close> is set exactly when it was set before or
  the line is the solution marker, so it is set at the first marker and never cleared. The
  \<open>solved\<close> field of a returned result is true exactly when some line of the output is the
  marker.
\<close>

theorem solved_iff_solution_line_seen:
  "(loop_body F time_limit sps st (raw, elapsed) = Inr st' \<longrightarrow>
      found_one_solution st' = (found_one_solution st \<or> raw = Some ''----------\<newline>'')) \<and>
   (snd (run_problem W F model_path instance_path executable time_limit sps solver) = Inr r \<longrightarrow>
      solved r =
        (\<exists>tline \<in> set (popen_stdout W
                          (solver_command model_path instance_path executable time_limit solver)).
            fst tline = Some ''----------\<newline>''))"
proof (intro conjI impI)
  assume "loop_body F time_limit sps st (raw, elapsed) = Inr st'"
  then show "found_one_solution st' = (found_one_solution st \<or> raw = Some ''----------\<newline>'')"
    by (rule loop_body_found)
next
  let ?stream = "popen_stdout W (solver_command model_path instance_path executable time_limit solver)"
  assume "snd (run_problem W F model_path instance_path executable time_limit sps solver) = Inr r"
  then obtain p st where
    run: "run_loop F time_limit sps (setup_locals p) ?stream = Inr st" and
    r: "solved r = found_one_solution st"
    by (auto simp: run_problem_def Let_def split: if_splits sum.splits)
  from run_loop_found [OF run] r
  show "solved r = (\<exists>tline \<in> set ?stream. fst tline = Some ''----------\<newline>'')"
    by (simp add: setup_locals_def)
qed

theorem solved_iff_solution_line_seen_witness:
  "snd (run_problem
          (world_printing [(Some ''x = 3;\<newline>'', Fin (1/10)), (Some ''----------\<newline>'', Fin (1/10)),
                           (Some ''----------\<newline>'', Fin (2/10)), (Some ''==========\<newline>'', Fin (2/10))])
          exact_arith ''m.mzn'' None ''minizinc'' 1000 [50] ''chuffed'')
     = Inr \<lparr>model = ''m.mzn'', problem_instance = None, solved = True, results = []\<rparr> \<and>
   snd (run_problem
          (world_printing [(Some ''x = 3;\<newline>'', Fin (1/10)), (Some ''---------- \<newline>'', Fin (1/10))])
          exact_arith ''m.mzn'' None ''minizinc'' 1000 [50] ''chuffed'')
     = Inr \<lparr>model = ''m.mzn'', problem_instance = None, solved = False, results = []\<rparr>"
proof -
  let ?A = "[(Some ''x = 3;\<newline>'', Fin (1/10)), (Some ''----------\<newline>'', Fin (1/10)),
                           (Some ''----------\<newline>'', Fin (2/10)), (Some ''==========\<newline>'', Fin (2/10))]"
  let ?B = "[(Some ''x = 3;\<newline>'', Fin (1/10)), (Some ''---------- \<newline>'', Fin (1/10))]"
  have A: "snd (run_problem (world_printing ?A) exact_arith ''m.mzn'' None ''minizinc'' 1000 [50] ''chuffed'')
     = Inr \<lparr>model = ''m.mzn'', problem_instance = None, solved = True, results = []\<rparr>"
    by (simp add: run_defs)
  have B: "snd (run_problem (world_printing ?B) exact_arith ''m.mzn'' None ''minizinc'' 1000 [50] ''chuffed'')
     = Inr \<lparr>model = ''m.mzn'', problem_instance = None, solved = False, results = []\<rparr>"
    by (simp add: run_defs)
  from solved_iff_solution_line_seen [where W = "world_printing ?A" and F = exact_arith
      and r = "\<lparr>model = ''m.mzn'', problem_instance = None, solved = True, results = []\<rparr>"] A
    solved_iff_solution_line_seen [where W = "world_printing ?B" and F = exact_arith
      and r = "\<lparr>model = ''m.mzn'', problem_instance = None, solved = False, results = []\<rparr>"] B
  show ?thesis by simp
qed

section \<open>Output that ends early\<close>

text \<open>
  C5. When the loop reaches the end of the output, \<open>run_problem\<close> returns the snapshots
  appended so far and nothing else: the pending snapshot \<open>output\<close> is dropped, nothing is
  raised and nothing is added. Their number is the number of targets consumed, less one
  when a capture is pending, and at most the number of configured targets.
\<close>

theorem early_end_returns_finalized_snapshots:
  assumes "which_found W executable" and "path_exists W model_path"
    and "case instance_path of None \<Rightarrow> True | Some inst \<Rightarrow> inst = [] \<or> path_exists W inst"
    and "py_index sps 0 = Inr p"
    and "run_loop F time_limit sps (setup_locals p)
           (popen_stdout W (solver_command model_path instance_path executable time_limit solver))
         = Inr st"
  shows "snd (run_problem W F model_path instance_path executable time_limit sps solver)
           = Inr \<lparr>model = model_path, problem_instance = instance_path,
                  solved = found_one_solution st, results = results_v st\<rparr> \<and>
         int (length (results_v st)) = save_idx st - (if capture_next_block st then 1 else 0) \<and>
         save_idx st \<le> int (length sps)"
proof -
  have "snd (run_problem W F model_path instance_path executable time_limit sps solver)
           = Inr \<lparr>model = model_path, problem_instance = instance_path,
                  solved = found_one_solution st, results = results_v st\<rparr>"
    using assms by (auto simp: run_problem_def split: option.splits)
  moreover from run_loop_balance [OF assms(5) setup_locals_balance(1,2)]
  have "int (length (results_v st)) = save_idx st - (if capture_next_block st then 1 else 0) \<and>
         save_idx st \<le> int (length sps)"
    by simp
  ultimately show ?thesis by simp
qed

theorem early_end_returns_finalized_snapshots_witness:
  "snd (run_problem
          (world_printing
             [(Some ''%%%mzn-stat: x=1\<newline>'', Fin (6/100)), (Some ''%%%mzn-stat-end\<newline>'', Fin (6/100)),
              (Some ''%%%mzn-stat: x=2\<newline>'', Fin (7/100)), (Some ''%%%mzn-stat-end\<newline>'', Fin (7/100)),
              (Some ''%%%mzn-stat: x=3\<newline>'', Fin (11/100)), (Some ''%%%mzn-stat-end\<newline>'', Fin (11/100)),
              (Some ''%%%mzn-stat: x=4\<newline>'', Fin (12/100)), (Some ''%%%mzn-stat-end\<newline>'', Fin (12/100)),
              (Some ''%%%mzn-stat: x=5\<newline>'', Fin (16/100)), (Some ''%%%mzn-stat-end\<newline>'', Fin (16/100)),
              (Some ''%%%mzn-stat: x=6\<newline>'', Fin (17/100))])
          exact_arith ''m.mzn'' None ''minizinc'' 1000 [5, 10, 15, 20] ''chuffed'')
     = Inr \<lparr>model = ''m.mzn'', problem_instance = None, solved = False,
            results = [\<lparr>percent = 5, features = [''x'' \<mapsto> Fin 2]\<rparr>,
                       \<lparr>percent = 5, features = [''x'' \<mapsto> Fin 4]\<rparr>]\<rparr>"
proof -
  let ?stream = "[(Some ''%%%mzn-stat: x=1\<newline>'', Fin (6/100)), (Some ''%%%mzn-stat-end\<newline>'', Fin (6/100)),
              (Some ''%%%mzn-stat: x=2\<newline>'', Fin (7/100)), (Some ''%%%mzn-stat-end\<newline>'', Fin (7/100)),
              (Some ''%%%mzn-stat: x=3\<newline>'', Fin (11/100)), (Some ''%%%mzn-stat-end\<newline>'', Fin (11/100)),
              (Some ''%%%mzn-stat: x=4\<newline>'', Fin (12/100)), (Some ''%%%mzn-stat-end\<newline>'', Fin (12/100)),
              (Some ''%%%mzn-stat: x=5\<newline>'', Fin (16/100)), (Some ''%%%mzn-stat-end\<newline>'', Fin (16/100)),
              (Some ''%%%mzn-stat: x=6\<newline>'', Fin (17/100))]"
  let ?st = "\<lparr>results_v = [\<lparr>percent = 5, features = [''x'' \<mapsto> Fin 2]\<rparr>,
                           \<lparr>percent = 5, features = [''x'' \<mapsto> Fin 4]\<rparr>],
             save_idx = 3, next_save_point = 15,
             output_v = \<lparr>percent = 10, features = [''x'' \<mapsto> Fin 6]\<rparr>,
             capture_next_block = True, is_next_block = True, found_one_solution = False\<rparr>"
  have loop: "run_loop exact_arith 1000 [5, 10, 15, 20] (setup_locals 5)
                (popen_stdout (world_printing ?stream)
                   (solver_command ''m.mzn'' None ''minizinc'' 1000 ''chuffed'')) = Inr ?st"
    by (simp add: run_defs parse_defs)
  from early_end_returns_finalized_snapshots [where W = "world_printing ?stream"
      and F = exact_arith and sps = "[5, 10, 15, 20]" and p = 5 and instance_path = None
      and solver = "''chuffed''", OF _ _ _ _ loop]
  show ?thesis
    by (simp add: world_printing_def py_index_def)
qed

section \<open>Runs over pairs of statistics blocks\<close>

lemma value_line_class:
  "is_stat_related (value_line name stat)" "is_stat_value (value_line name stat)"
  "\<not> stat_block_end (value_line name stat)" "\<not> is_solution (value_line name stat)"
  by (simp_all add: classifier_defs value_line_def)

lemma end_line_class:
  "is_stat_related end_line" "\<not> is_stat_value end_line"
  "stat_block_end end_line" "\<not> is_solution end_line"
  by (simp_all add: classifier_defs end_line_def)

lemma value_line_parts:
  "CHR ''='' \<notin> set name \<Longrightarrow> CHR ''='' \<notin> set stat \<Longrightarrow>
   split_sep CHR ''='' (drop 13 (value_line name stat)) = [name, stat @ ''\<newline>'']"
  using split_sep_one_sep [of "CHR ''=''" name "stat @ ''\<newline>''"]
  by (simp add: value_line_def)

lemma due_index:
  assumes "reached_save_point F elapsed time_limit sps (int k) = Inr True"
  shows "k < length sps" and "py_index sps (int k) = Inr (sps ! k)"
  using assms by (auto simp: reached_save_point_def py_index_def split: sum.splits if_splits)

subsection \<open>The block during which the capture begins\<close>

lemma armed_values_ignored:
  "capture_next_block st \<Longrightarrow> \<not> is_next_block st \<Longrightarrow>
   run_loop F time_limit sps st (map (\<lambda>(name, stat, t). (Some (value_line name stat), t)) vals) = Inr st"
  by (induction vals)
     (auto simp: loop_body_def check_capture_def capture_line_def value_line_class)

lemma armed_end:
  "capture_next_block st \<Longrightarrow> \<not> is_next_block st \<Longrightarrow>
   loop_body F time_limit sps st (Some end_line, t) = Inr (st\<lparr>is_next_block := True\<rparr>)"
  by (simp add: loop_body_def check_capture_def capture_line_def end_line_class)

lemma idle_value_begins:
  assumes "\<not> capture_next_block st" and "\<not> is_next_block st" and "save_idx st = int k"
    and "reached_save_point F t time_limit sps (int k) = Inr True"
  shows "loop_body F time_limit sps st (Some (value_line name stat), t)
           = Inr (st\<lparr>capture_next_block := True, next_save_point := sps ! k, save_idx := int k + 1\<rparr>)"
  using assms due_index(2) [OF assms(4)]
  by (simp add: loop_body_def check_capture_def capture_line_def value_line_class)

lemma idle_end_begins:
  assumes "\<not> capture_next_block st" and "\<not> is_next_block st" and "save_idx st = int k"
    and "reached_save_point F t time_limit sps (int k) = Inr True"
  shows "loop_body F time_limit sps st (Some end_line, t)
           = Inr (st\<lparr>capture_next_block := True, next_save_point := sps ! k, save_idx := int k + 1,
                     is_next_block := True\<rparr>)"
  using assms due_index(2) [OF assms(4)]
  by (simp add: loop_body_def check_capture_def capture_line_def end_line_class)

lemma arming_block:
  assumes "\<not> capture_next_block st" and "\<not> is_next_block st" and "save_idx st = int k"
    and "reached_save_point F (first_time b) time_limit sps (int k) = Inr True"
  shows "run_loop F time_limit sps st (block_lines b)
           = Inr (st\<lparr>capture_next_block := True, next_save_point := sps ! k, save_idx := int k + 1,
                     is_next_block := True\<rparr>)"
proof (cases "fst b")
  case Nil
  with assms show ?thesis
    by (simp add: block_lines_def first_time_def idle_end_begins)
next
  case (Cons v vals)
  obtain name stat t where v: "v = (name, stat, t)" by (cases v)
  let ?st1 = "st\<lparr>capture_next_block := True, next_save_point := sps ! k, save_idx := int k + 1\<rparr>"
  have first: "loop_body F time_limit sps st (Some (value_line name stat), t) = Inr ?st1"
    using assms Cons v by (simp add: first_time_def idle_value_begins)
  have rest: "run_loop F time_limit sps ?st1
                (map (\<lambda>(name, stat, t). (Some (value_line name stat), t)) vals) = Inr ?st1"
    using assms(2) by (intro armed_values_ignored) simp_all
  have last: "loop_body F time_limit sps ?st1 (Some end_line, snd b) = Inr (?st1\<lparr>is_next_block := True\<rparr>)"
    using assms(2) by (intro armed_end) simp_all
  show ?thesis
    using first rest last Cons v
    by (simp add: block_lines_def run_loop_append)
qed

subsection \<open>The block that is captured\<close>

lemma capturing_values_stored:
  "capture_next_block st \<Longrightarrow> is_next_block st \<Longrightarrow>
   list_all (\<lambda>(name, stat, t). CHR ''='' \<notin> set name \<and> CHR ''='' \<notin> set stat \<and>
                 \<not> isl (float_of_str F (stat @ ''\<newline>''))) vals \<Longrightarrow>
   run_loop F time_limit sps st (map (\<lambda>(name, stat, t). (Some (value_line name stat), t)) vals)
     = Inr (st\<lparr>output_v := (output_v st)\<lparr>features := store_all F vals (features (output_v st))\<rparr>\<rparr>)"
proof (induction vals arbitrary: st)
  case Nil
  then show ?case by (simp add: store_all_def)
next
  case (Cons v vals)
  obtain name stat t where v: "v = (name, stat, t)" by (cases v)
  from Cons.prems(3) v obtain x where x: "float_of_str F (stat @ ''\<newline>'') = Inr x"
    by (cases "float_of_str F (stat @ ''\<newline>'')") auto
  let ?st1 = "st\<lparr>output_v := (output_v st)\<lparr>features := (features (output_v st))(name \<mapsto> x)\<rparr>\<rparr>"
  have one: "loop_body F time_limit sps st (Some (value_line name stat), t) = Inr ?st1"
    using Cons.prems v x
    by (simp add: loop_body_def check_capture_def capture_line_def value_line_class
        store_value_def value_line_parts)
  have "run_loop F time_limit sps ?st1 (map (\<lambda>(name, stat, t). (Some (value_line name stat), t)) vals)
     = Inr (?st1\<lparr>output_v := (output_v ?st1)\<lparr>features := store_all F vals (features (output_v ?st1))\<rparr>\<rparr>)"
    using Cons.prems v by (intro Cons.IH) simp_all
  with one v x show ?case
    by (simp add: store_all_def)
qed

lemma capturing_end:
  "capture_next_block st \<Longrightarrow> is_next_block st \<Longrightarrow>
   loop_body F time_limit sps st (Some end_line, t)
     = Inr (st\<lparr>capture_next_block := False, is_next_block := False,
               results_v := results_v st @ [output_v st],
               output_v := \<lparr>percent = next_save_point st, features = Map.empty\<rparr>\<rparr>)"
  by (simp add: loop_body_def check_capture_def capture_line_def end_line_class)

lemma captured_block:
  assumes "capture_next_block st" and "is_next_block st" and "well_formed F b"
  shows "run_loop F time_limit sps st (block_lines b)
     = Inr (st\<lparr>capture_next_block := False, is_next_block := False,
               results_v := results_v st @
                  [(output_v st)\<lparr>features := store_all F (fst b) (features (output_v st))\<rparr>],
               output_v := \<lparr>percent = next_save_point st, features = Map.empty\<rparr>\<rparr>)"
proof -
  let ?st1 = "st\<lparr>output_v := (output_v st)\<lparr>features := store_all F (fst b) (features (output_v st))\<rparr>\<rparr>"
  have "run_loop F time_limit sps st (map (\<lambda>(name, stat, t). (Some (value_line name stat), t)) (fst b))
          = Inr ?st1"
    using assms by (intro capturing_values_stored) (simp_all add: well_formed_def)
  moreover have "loop_body F time_limit sps ?st1 (Some end_line, snd b)
     = Inr (?st1\<lparr>capture_next_block := False, is_next_block := False,
               results_v := results_v ?st1 @ [output_v ?st1],
               output_v := \<lparr>percent = next_save_point ?st1, features = Map.empty\<rparr>\<rparr>)"
    using assms(1,2) by (intro capturing_end) simp_all
  ultimately show ?thesis
    by (simp add: block_lines_def run_loop_append)
qed

subsection \<open>A pair of blocks consumes one target and appends one snapshot\<close>

lemma pair_of_blocks:
  assumes "\<not> capture_next_block st" and "\<not> is_next_block st" and "save_idx st = int k"
    and "reached_save_point F (first_time (fst bb)) time_limit sps (int k) = Inr True"
    and "well_formed F (snd bb)"
  shows "run_loop F time_limit sps st (pair_lines bb)
     = Inr \<lparr>results_v = results_v st @
                [(output_v st)\<lparr>features := store_all F (fst (snd bb)) (features (output_v st))\<rparr>],
            save_idx = int k + 1, next_save_point = sps ! k,
            output_v = \<lparr>percent = sps ! k, features = Map.empty\<rparr>,
            capture_next_block = False, is_next_block = False,
            found_one_solution = found_one_solution st\<rparr>"
proof -
  let ?st1 = "st\<lparr>capture_next_block := True, next_save_point := sps ! k, save_idx := int k + 1,
                     is_next_block := True\<rparr>"
  have "run_loop F time_limit sps st (block_lines (fst bb)) = Inr ?st1"
    using assms(1-4) by (rule arming_block)
  moreover have "run_loop F time_limit sps ?st1 (block_lines (snd bb))
     = Inr (?st1\<lparr>capture_next_block := False, is_next_block := False,
               results_v := results_v ?st1 @
                  [(output_v ?st1)\<lparr>features := store_all F (fst (snd bb)) (features (output_v ?st1))\<rparr>],
               output_v := \<lparr>percent = next_save_point ?st1, features = Map.empty\<rparr>\<rparr>)"
    using assms(5) by (intro captured_block) simp_all
  ultimately show ?thesis
    by (simp add: pair_lines_def run_loop_append)
qed

lemma pairs_of_blocks:
  assumes "\<not> capture_next_block st" and "\<not> is_next_block st" and "save_idx st = int k"
    and "features (output_v st) = Map.empty"
    and "due_in_turn F time_limit sps k pairs"
    and "list_all (\<lambda>bb. well_formed F (snd bb)) pairs"
  shows "\<exists>st' outs.
           run_loop F time_limit sps st (pairs_stream pairs) = Inr st' \<and>
           results_v st' = results_v st @ outs \<and>
           map features outs = map (\<lambda>bb. block_features F (snd bb)) pairs \<and>
           (pairs \<noteq> [] \<longrightarrow> percent (hd outs) = percent (output_v st)) \<and>
           found_one_solution st' = found_one_solution st"
  using assms
proof (induction pairs arbitrary: st k)
  case Nil
  then show ?case by (simp add: pairs_stream_def)
next
  case (Cons bb pairs)
  let ?out = "(output_v st)\<lparr>features := store_all F (fst (snd bb)) (features (output_v st))\<rparr>"
  let ?st1 = "\<lparr>results_v = results_v st @ [?out],
            save_idx = int k + 1, next_save_point = sps ! k,
            output_v = \<lparr>percent = sps ! k, features = Map.empty\<rparr>,
            capture_next_block = False, is_next_block = False,
            found_one_solution = found_one_solution st\<rparr>"
  have one: "run_loop F time_limit sps st (pair_lines bb) = Inr ?st1"
    using Cons.prems by (intro pair_of_blocks) simp_all
  have "\<exists>st' outs.
           run_loop F time_limit sps ?st1 (pairs_stream pairs) = Inr st' \<and>
           results_v st' = results_v ?st1 @ outs \<and>
           map features outs = map (\<lambda>bb. block_features F (snd bb)) pairs \<and>
           (pairs \<noteq> [] \<longrightarrow> percent (hd outs) = percent (output_v ?st1)) \<and>
           found_one_solution st' = found_one_solution ?st1"
    using Cons.prems by (intro Cons.IH [where k = "Suc k"]) simp_all
  then obtain st' outs where
    more: "run_loop F time_limit sps ?st1 (pairs_stream pairs) = Inr st'" and
    res: "results_v st' = results_v ?st1 @ outs" and
    feats: "map features outs = map (\<lambda>bb. block_features F (snd bb)) pairs" and
    found: "found_one_solution st' = found_one_solution ?st1"
    by blast
  have "run_loop F time_limit sps st (pairs_stream (bb # pairs)) = Inr st'"
    using one more by (simp add: pairs_stream_def run_loop_append)
  moreover have "results_v st' = results_v st @ (?out # outs)"
    using res by simp
  moreover have "map features (?out # outs) = map (\<lambda>bb. block_features F (snd bb)) (bb # pairs)"
    using feats Cons.prems(4) by (simp add: block_features_def)
  moreover have "percent (hd (?out # outs)) = percent (output_v st)"
    by simp
  moreover have "found_one_solution st' = found_one_solution st"
    using found by simp
  ultimately show ?case by blast
qed

section \<open>Lines that are not related to statistics\<close>

lemma store_value_found_upd:
  "store_value F line (st\<lparr>found_one_solution := b\<rparr>) =
     (case store_value F line st of Inl e \<Rightarrow> Inl e
      | Inr st' \<Rightarrow> Inr (st'\<lparr>found_one_solution := b\<rparr>))"
  by (simp add: store_value_def split: list.splits sum.splits)

lemma check_capture_found_upd:
  "check_capture F time_limit sps elapsed (st\<lparr>found_one_solution := b\<rparr>) =
     (case check_capture F time_limit sps elapsed st of Inl e \<Rightarrow> Inl e
      | Inr st' \<Rightarrow> Inr (st'\<lparr>found_one_solution := b\<rparr>))"
  by (simp add: check_capture_def split: sum.splits bool.splits)

lemma capture_line_found_upd:
  "capture_line F line (st\<lparr>found_one_solution := b\<rparr>) =
     (case capture_line F line st of Inl e \<Rightarrow> Inl e
      | Inr st' \<Rightarrow> Inr (st'\<lparr>found_one_solution := b\<rparr>))"
  by (simp add: capture_line_def store_value_found_upd)

lemma loop_body_found_upd:
  "loop_body F time_limit sps (st\<lparr>found_one_solution := b\<rparr>) tline =
     (case loop_body F time_limit sps st tline of Inl e \<Rightarrow> Inl e
      | Inr st' \<Rightarrow>
          Inr (st'\<lparr>found_one_solution := b \<or> fst tline = Some ''----------\<newline>''\<rparr>))"
proof (cases "fst tline")
  case None
  then show ?thesis by (simp add: loop_body_def)
next
  case (Some line)
  show ?thesis
  proof (cases "is_stat_related line")
    case False
    with Some show ?thesis
      by (auto simp: loop_body_def is_solution_def)
  next
    case True
    then have "\<not> is_solution line" by (rule stat_related_not_solution)
    with Some True show ?thesis
      by (auto simp: loop_body_def is_solution_def check_capture_found_upd capture_line_found_upd
          split: sum.splits)
  qed
qed

lemma run_loop_found_upd:
  "run_loop F time_limit sps (st\<lparr>found_one_solution := b\<rparr>) stream =
     (case run_loop F time_limit sps st stream of Inl e \<Rightarrow> Inl e
      | Inr st' \<Rightarrow> Inr (st'\<lparr>found_one_solution := b \<or> solution_seen stream\<rparr>))"
proof (induction stream arbitrary: st b)
  case Nil
  then show ?case by (simp add: solution_seen_def)
next
  case (Cons tline rest)
  show ?case
  proof (cases "loop_body F time_limit sps st tline")
    case (Inl e)
    then show ?thesis by (simp add: loop_body_found_upd)
  next
    case (Inr st1)
    then show ?thesis
      by (simp add: loop_body_found_upd Cons.IH solution_seen_def split: sum.splits)
  qed
qed

lemma loop_body_noise:
  assumes "fst tline = Some line" and "\<not> is_stat_related line"
  shows "loop_body F time_limit sps st tline
           = Inr (st\<lparr>found_one_solution :=
                      found_one_solution st \<or> fst tline = Some ''----------\<newline>''\<rparr>)"
  using assms by (auto simp: loop_body_def is_solution_def)

lemma statistics_lines_not_solution: "\<not> solution_seen (statistics_lines stream)"
  by (induction stream)
     (auto simp: statistics_lines_def solution_seen_def stat_line_def is_stat_related_def
       split: option.splits)

text \<open>
  Lines that are not related to statistics do not touch the capture: a run over decoded
  lines ends as the run over its statistics lines does, but for the solved flag.
\<close>

lemma run_loop_statistics_lines:
  assumes "list_all decoded stream"
  shows "run_loop F time_limit sps st stream =
     (case run_loop F time_limit sps st (statistics_lines stream) of
        Inl e \<Rightarrow> Inl e
      | Inr st' \<Rightarrow>
          Inr (st'\<lparr>found_one_solution := found_one_solution st \<or> solution_seen stream\<rparr>))"
  using assms
proof (induction stream arbitrary: st)
  case Nil
  then show ?case by (simp add: statistics_lines_def solution_seen_def)
next
  case (Cons tline rest)
  from Cons.prems obtain line where line: "fst tline = Some line"
    by (auto simp: decoded_def)
  have rest: "list_all decoded rest" using Cons.prems by simp
  show ?case
  proof (cases "is_stat_related line")
    case False
    have skip: "statistics_lines (tline # rest) = statistics_lines rest"
      using line False by (simp add: statistics_lines_def stat_line_def)
    show ?thesis
      using line False Cons.IH [OF rest]
      by (simp add: skip loop_body_noise run_loop_found_upd solution_seen_def
          statistics_lines_not_solution [unfolded solution_seen_def] split: sum.splits)
  next
    case True
    have keep: "statistics_lines (tline # rest) = tline # statistics_lines rest"
      using line True by (simp add: statistics_lines_def stat_line_def)
    have nomark: "fst tline \<noteq> Some ''----------\<newline>''"
      using line True by (auto simp: is_stat_related_def)
    show ?thesis
    proof (cases "loop_body F time_limit sps st tline")
      case (Inl e)
      then show ?thesis by (simp add: keep)
    next
      case (Inr st1)
      have "found_one_solution st1 = found_one_solution st"
        using loop_body_found [of F time_limit sps st "fst tline" "snd tline" st1] Inr nomark
        by simp
      with Inr nomark Cons.IH [OF rest, of st1] show ?thesis
        by (simp add: keep solution_seen_def split: sum.splits)
    qed
  qed
qed

section \<open>The end-to-end scenario with one target\<close>

text \<open>
  C1, as amended. With the targets \<open>[50]\<close> and a budget of 1000 ms, let every line of the
  output be decoded text and let its statistics lines be, in order, those of an earlier
  statistics block whose first line is read when the target is due, and then the value line
  \<open>%%%mzn-stat: x=1.0\<close> and the end marker. Lines that are not related to statistics,
  solution lines among them, may stand anywhere before, between and after. Then
  \<open>run_problem\<close> returns exactly one snapshot, with percent 50 and the single feature \<open>x\<close>,
  whose value is the float of \<open>1.0\<close>, and \<open>solved\<close> tells whether a solution line was
  printed. The capture is begun at the first statistics line read once the target is due,
  and the block captured is the one after the next end marker.
\<close>

theorem block_after_earlier_block_yields_snapshot:
  fixes F :: "'f float_ops"
  assumes "which_found W executable" and "path_exists W model_path"
    and "case instance_path of None \<Rightarrow> True | Some inst \<Rightarrow> inst = [] \<or> path_exists W inst"
    and "popen_stdout W (solver_command model_path instance_path executable 1000 solver) = stream"
    and "list_all decoded stream"
    and "statistics_lines stream
           = block_lines earlier @
             [(Some ''%%%mzn-stat: x=1.0\<newline>'', t1), (Some ''%%%mzn-stat-end\<newline>'', t2)]"
    and "reached_save_point F (first_time earlier) 1000 [50] 0 = Inr True"
    and "float_of_str F ''1.0\<newline>'' = Inr v"
  shows "snd (run_problem W F model_path instance_path executable 1000 [50] solver)
           = Inr \<lparr>model = model_path, problem_instance = instance_path,
                  solved = solution_seen stream,
                  results = [\<lparr>percent = 50, features = [''x'' \<mapsto> v]\<rparr>]\<rparr>"
proof -
  let ?st0 = "setup_locals 50 :: 'f locals"
  let ?captured = "([(''x'', ''1.0'', t1)], t2)"
  have lines: "statistics_lines stream = pair_lines (earlier, ?captured)"
    using assms(6) by (simp add: pair_lines_def block_lines_def value_line_def end_line_def)
  have wf: "well_formed F (snd (earlier, ?captured))"
    using assms(8) by (simp add: well_formed_def)
  have due: "reached_save_point F (first_time (fst (earlier, ?captured))) 1000 [50] (int 0) = Inr True"
    using assms(7) by simp
  have "run_loop F 1000 [50] ?st0 (pair_lines (earlier, ?captured))
     = Inr \<lparr>results_v = results_v ?st0 @
                [(output_v ?st0)\<lparr>features :=
                    store_all F (fst (snd (earlier, ?captured))) (features (output_v ?st0))\<rparr>],
            save_idx = int 0 + 1, next_save_point = [50] ! 0,
            output_v = \<lparr>percent = [50] ! 0, features = Map.empty\<rparr>,
            capture_next_block = False, is_next_block = False,
            found_one_solution = found_one_solution ?st0\<rparr>"
    by (rule pair_of_blocks [OF _ _ _ due wf]) (simp_all add: setup_locals_def)
  then have stats: "run_loop F 1000 [50] ?st0 (statistics_lines stream)
     = Inr \<lparr>results_v = [\<lparr>percent = 50, features = [''x'' \<mapsto> v]\<rparr>],
            save_idx = 1, next_save_point = 50,
            output_v = \<lparr>percent = 50, features = Map.empty\<rparr>,
            capture_next_block = False, is_next_block = False,
            found_one_solution = False\<rparr>"
    using assms(8) by (simp add: lines setup_locals_def store_all_def)
  have "run_loop F 1000 [50] ?st0 stream
     = Inr \<lparr>results_v = [\<lparr>percent = 50, features = [''x'' \<mapsto> v]\<rparr>],
            save_idx = 1, next_save_point = 50,
            output_v = \<lparr>percent = 50, features = Map.empty\<rparr>,
            capture_next_block = False, is_next_block = False,
            found_one_solution = solution_seen stream\<rparr>"
    by (simp add: run_loop_statistics_lines [OF assms(5)] stats) (simp add: setup_locals_def)
  then show ?thesis
    using assms(1-4)
    by (auto simp: run_problem_def py_index_def split: option.splits)
qed

theorem block_after_earlier_block_yields_snapshot_witness:
  "snd (run_problem
          (world_printing [(Some ''x = 3;\<newline>'', Fin (1/10)),
                           (Some ''%%%mzn-stat: x=0.5\<newline>'', Fin (6/10)),
                           (Some ''%%%mzn-stat-end\<newline>'', Fin (6/10)),
                           (Some ''----------\<newline>'', Fin (7/10)),
                           (Some ''%%%mzn-stat: x=1.0\<newline>'', Fin (8/10)),
                           (Some ''x = 4;\<newline>'', Fin (8/10)),
                           (Some ''%%%mzn-stat-end\<newline>'', Fin (8/10)),
                           (Some ''==========\<newline>'', Fin (9/10))])
          exact_arith ''m.mzn'' None ''minizinc'' 1000 [50] ''chuffed'')
     = Inr \<lparr>model = ''m.mzn'', problem_instance = None, solved = True,
            results = [\<lparr>percent = 50, features = [''x'' \<mapsto> Fin 1]\<rparr>]\<rparr>"
proof -
  let ?stream = "[(Some ''x = 3;\<newline>'', Fin (1/10)),
                           (Some ''%%%mzn-stat: x=0.5\<newline>'', Fin (6/10)),
                           (Some ''%%%mzn-stat-end\<newline>'', Fin (6/10)),
                           (Some ''----------\<newline>'', Fin (7/10)),
                           (Some ''%%%mzn-stat: x=1.0\<newline>'', Fin (8/10)),
                           (Some ''x = 4;\<newline>'', Fin (8/10)),
                           (Some ''%%%mzn-stat-end\<newline>'', Fin (8/10)),
                           (Some ''==========\<newline>'', Fin (9/10))]"
  let ?earlier = "([(''x'', ''0.5'', Fin (6/10))], Fin (6/10))"
  have due: "reached_save_point exact_arith (first_time ?earlier) 1000 [50] 0 = Inr True"
    by (simp add: first_time_def reached_save_point_def exact_arith_def py_index_def)
  have parse: "float_of_str exact_arith ''1.0\<newline>'' = Inr (Fin 1)"
    by (simp add: exact_arith_def parse_defs)
  have stats: "statistics_lines ?stream
           = block_lines ?earlier @
             [(Some ''%%%mzn-stat: x=1.0\<newline>'', Fin (8/10)),
              (Some ''%%%mzn-stat-end\<newline>'', Fin (8/10))]"
    by (simp add: statistics_lines_def stat_line_def is_stat_related_def block_lines_def
        value_line_def end_line_def)
  have dec: "list_all decoded ?stream"
    by (simp add: decoded_def)
  have seen: "solution_seen ?stream"
    by (simp add: solution_seen_def)
  from block_after_earlier_block_yields_snapshot [where W = "world_printing ?stream"
      and F = exact_arith and instance_path = None and solver = "''chuffed''"
      and executable = "''minizinc''" and model_path = "''m.mzn''",
      OF _ _ _ _ dec stats due parse] seen
  show ?thesis
    by (simp add: world_printing_def)
qed

text \<open>
  C1 as stated fails: when the output is only the block itself, read at 600 ms, the value
  line begins the capture, the end marker announces the next block, and the output ends
  with no snapshot appended.
\<close>

theorem lone_block_yields_no_snapshot:
  "snd (run_problem
          (world_printing [(Some ''%%%mzn-stat: x=1.0\<newline>'', Fin (6/10)),
                           (Some ''%%%mzn-stat-end\<newline>'', Fin (6/10))])
          exact_arith ''m.mzn'' None ''minizinc'' 1000 [50] ''chuffed'')
     = Inr \<lparr>model = ''m.mzn'', problem_instance = None, solved = False, results = []\<rparr>"
  by (simp add: run_defs)

section \<open>One snapshot for each target\<close>

text \<open>
  C2, as amended. Let the list of targets be non-empty, let every line of the output be
  decoded text, and let the statistics lines of the output be, in order, one pair of
  statistics blocks for each target, such that the target is due at the first line of its
  pair and the second block of each pair is well formed. Lines that are not related to
  statistics, solution lines among them, may stand anywhere. Then \<open>run_problem\<close> returns
  exactly as many snapshots as there are targets; the features of the snapshots are, in
  order, those of the second blocks of the pairs; the first snapshot is labelled with the
  first target; and \<open>solved\<close> tells whether a solution line was printed. The statement needs
  neither increasing targets nor targets within 1 to 100.
\<close>

theorem one_snapshot_per_pair_of_blocks:
  fixes F :: "'f float_ops"
  assumes "which_found W executable" and "path_exists W model_path"
    and "case instance_path of None \<Rightarrow> True | Some inst \<Rightarrow> inst = [] \<or> path_exists W inst"
    and "sps \<noteq> []"
    and "popen_stdout W (solver_command model_path instance_path executable time_limit solver)
           = stream"
    and "list_all decoded stream"
    and "statistics_lines stream = pairs_stream pairs"
    and "length pairs = length sps"
    and "due_in_turn F time_limit sps 0 pairs"
    and "list_all (\<lambda>bb. well_formed F (snd bb)) pairs"
  shows "\<exists>r. snd (run_problem W F model_path instance_path executable time_limit sps solver) = Inr r \<and>
             length (results r) = length sps \<and>
             map features (results r) = map (\<lambda>bb. block_features F (snd bb)) pairs \<and>
             percent (hd (results r)) = hd sps \<and>
             solved r = solution_seen stream"
proof -
  have idx: "py_index sps 0 = Inr (hd sps)"
    using assms(4) by (cases sps) (simp_all add: py_index_def)
  have pairs: "pairs \<noteq> []"
    using assms(4,8) by auto
  let ?st0 = "setup_locals (hd sps) :: 'f locals"
  have "\<exists>st' outs.
           run_loop F time_limit sps ?st0 (pairs_stream pairs) = Inr st' \<and>
           results_v st' = results_v ?st0 @ outs \<and>
           map features outs = map (\<lambda>bb. block_features F (snd bb)) pairs \<and>
           (pairs \<noteq> [] \<longrightarrow> percent (hd outs) = percent (output_v ?st0)) \<and>
           found_one_solution st' = found_one_solution ?st0"
    by (rule pairs_of_blocks [where k = 0, OF _ _ _ _ assms(9,10)]) (simp_all add: setup_locals_def)
  then obtain st' outs where
    stats: "run_loop F time_limit sps ?st0 (statistics_lines stream) = Inr st'" and
    res: "results_v st' = outs" and
    feats: "map features outs = map (\<lambda>bb. block_features F (snd bb)) pairs" and
    label: "percent (hd outs) = hd sps"
    using pairs assms(7) by (auto simp: setup_locals_def)
  have run: "run_loop F time_limit sps ?st0 stream
               = Inr (st'\<lparr>found_one_solution := solution_seen stream\<rparr>)"
    by (simp add: run_loop_statistics_lines [OF assms(6)] stats) (simp add: setup_locals_def)
  have "length outs = length pairs"
    using feats by (metis length_map)
  moreover have "snd (run_problem W F model_path instance_path executable time_limit sps solver)
      = Inr \<lparr>model = model_path, problem_instance = instance_path,
             solved = solution_seen stream, results = results_v st'\<rparr>"
    using assms(1-3,5) idx run by (auto simp: run_problem_def split: option.splits)
  ultimately show ?thesis
    using res feats label assms(8) by simp
qed

theorem one_snapshot_per_pair_of_blocks_witness:
  "\<exists>r. snd (run_problem
          (world_printing
             ([(Some ''x = 3;\<newline>'', Fin (1/100))] @
              block_lines ([(''x'', ''1'', Fin (6/100))], Fin (6/100)) @
              [(Some ''----------\<newline>'', Fin (7/100))] @
              block_lines ([(''x'', ''2'', Fin (7/100))], Fin (7/100)) @
              block_lines ([(''x'', ''3'', Fin (11/100))], Fin (11/100)) @
              block_lines ([(''x'', ''4'', Fin (12/100))], Fin (12/100)) @
              [(Some ''==========\<newline>'', Fin (13/100))]))
          exact_arith ''m.mzn'' None ''minizinc'' 1000 [5, 10] ''chuffed'') = Inr r \<and>
       length (results r) = 2 \<and>
       map features (results r) = [[''x'' \<mapsto> Fin 2], [''x'' \<mapsto> Fin 4]] \<and>
       percent (hd (results r)) = 5 \<and> solved r"
proof -
  let ?pairs = "[(([(''x'', ''1'', Fin (6/100))], Fin (6/100)), ([(''x'', ''2'', Fin (7/100))], Fin (7/100))),
                 (([(''x'', ''3'', Fin (11/100))], Fin (11/100)), ([(''x'', ''4'', Fin (12/100))], Fin (12/100)))]"
  let ?stream = "[(Some ''x = 3;\<newline>'', Fin (1/100))] @
              block_lines ([(''x'', ''1'', Fin (6/100))], Fin (6/100)) @
              [(Some ''----------\<newline>'', Fin (7/100))] @
              block_lines ([(''x'', ''2'', Fin (7/100))], Fin (7/100)) @
              block_lines ([(''x'', ''3'', Fin (11/100))], Fin (11/100)) @
              block_lines ([(''x'', ''4'', Fin (12/100))], Fin (12/100)) @
              [(Some ''==========\<newline>'', Fin (13/100))]"
  have due: "due_in_turn exact_arith 1000 [5, 10] 0 ?pairs"
    by (simp add: first_time_def reached_save_point_def exact_arith_def py_index_def)
  have p2: "float_of_str exact_arith ''2\<newline>'' = Inr (Fin 2)"
    and p4: "float_of_str exact_arith ''4\<newline>'' = Inr (Fin 4)"
    by (simp_all add: exact_arith_def parse_defs)
  have wf: "list_all (\<lambda>bb. well_formed exact_arith (snd bb)) ?pairs"
    using p2 p4 by (simp add: well_formed_def)
  have stats: "statistics_lines ?stream = pairs_stream ?pairs"
    by (simp add: statistics_lines_def stat_line_def is_stat_related_def block_lines_def
        value_line_def end_line_def pairs_stream_def pair_lines_def)
  have dec: "list_all decoded ?stream"
    by (simp add: decoded_def block_lines_def)
  have seen: "solution_seen ?stream"
    by (simp add: solution_seen_def block_lines_def)
  from one_snapshot_per_pair_of_blocks [where W = "world_printing ?stream"
      and F = exact_arith and sps = "[5, 10]" and pairs = ?pairs and instance_path = None
      and solver = "''chuffed''" and executable = "''minizinc''" and model_path = "''m.mzn''"
      and time_limit = 1000,
      OF _ _ _ _ _ dec stats _ due wf] seen
  show ?thesis
    using p2 p4
    by (simp add: world_printing_def block_features_def store_all_def numeral_2_eq_2)
qed

text \<open>
  C2 as stated fails: with the targets \<open>[5, 10]\<close> and two blocks, the first read at 60 ms
  and the second at 110 ms of 1000 ms, the run returns one snapshot, not two. The first
  block begins the capture and the second is the one captured.
\<close>

theorem two_blocks_yield_one_snapshot:
  "snd (run_problem
          (world_printing [(Some ''%%%mzn-stat: x=1\<newline>'', Fin (6/100)),
                           (Some ''%%%mzn-stat-end\<newline>'', Fin (6/100)),
                           (Some ''%%%mzn-stat: x=2\<newline>'', Fin (11/100)),
                           (Some ''%%%mzn-stat-end\<newline>'', Fin (11/100))])
          exact_arith ''m.mzn'' None ''minizinc'' 1000 [5, 10] ''chuffed'')
     = Inr \<lparr>model = ''m.mzn'', problem_instance = None, solved = False,
            results = [\<lparr>percent = 5, features = [''x'' \<mapsto> Fin 2]\<rparr>]\<rparr>"
  by (simp add: run_defs parse_defs)

text \<open>
  The labels after the first are not part of the amended statement. Line 104 creates the
  next \<open>Output\<close> from \<open>next_save_point\<close> before line 92 has set it to the next target, so
  each later snapshot carries the label of the target before its own: with the targets
  \<open>[5, 10]\<close> and two pairs of blocks both snapshots are labelled 5.
\<close>

lemma stale_label_example:
  "snd (run_problem
          (world_printing [(Some ''%%%mzn-stat: x=1\<newline>'', Fin (6/100)),
                           (Some ''%%%mzn-stat-end\<newline>'', Fin (6/100)),
                           (Some ''%%%mzn-stat: x=2\<newline>'', Fin (7/100)),
                           (Some ''%%%mzn-stat-end\<newline>'', Fin (7/100)),
                           (Some ''%%%mzn-stat: x=3\<newline>'', Fin (11/100)),
                           (Some ''%%%mzn-stat-end\<newline>'', Fin (11/100)),
                           (Some ''%%%mzn-stat: x=4\<newline>'', Fin (12/100)),
                           (Some ''%%%mzn-stat-end\<newline>'', Fin (12/100))])
          exact_arith ''m.mzn'' None ''minizinc'' 1000 [5, 10] ''chuffed'')
     = Inr \<lparr>model = ''m.mzn'', problem_instance = None, solved = False,
            results = [\<lparr>percent = 5, features = [''x'' \<mapsto> Fin 2]\<rparr>,
                       \<lparr>percent = 5, features = [''x'' \<mapsto> Fin 4]\<rparr>]\<rparr>"
  by (simp add: run_defs parse_defs)

end
